theory Spec2Isabelle
  imports Main "HOL-Library.Word" "HOL-Library.Sublist"
begin

section \<open>JavaScript values\<close>

text \<open>
  A JavaScript string is a sequence of UTF-16 code units. The string methods the
  program calls (\<^verbatim>\<open>trim\<close>, \<^verbatim>\<open>includes\<close>) work on code units, so strings are
  lists of 16-bit words. Every string literal of the source is ASCII; \<open>js\<close> turns
  such a literal into its code units.
\<close>

type_synonym code_unit = "16 word"
type_synonym js_string = "code_unit list"

definition js :: "string \<Rightarrow> js_string" where
  "js s = map of_char s"

text \<open>
  The values that travel through the program: what \<^verbatim>\<open>JSON.parse\<close> produces, and
  \<^verbatim>\<open>undefined\<close>. An object keeps its properties in insertion order; a lookup takes
  the first entry of a key. Numbers are only carried, never computed on.
\<close>

datatype jsval =
    JUndefined
  | JNull
  | JBool bool
  | JNum int
  | JStr js_string
  | JArr "jsval list"
  | JObj "(js_string \<times> jsval) list"

text \<open>
  What a \<^verbatim>\<open>throw\<close> carries: the \<^verbatim>\<open>TypeError\<close> the language raises itself, or any
  value thrown by a library.
\<close>

datatype js_error = TypeError | Thrown jsval

text \<open>
  Property read \<^verbatim>\<open>v.k\<close> and the destructuring \<^verbatim>\<open>const { k } = v\<close>: both throw a
  \<^verbatim>\<open>TypeError\<close> on \<^verbatim>\<open>undefined\<close> and \<^verbatim>\<open>null\<close>. An object gives the property's value,
  or \<^verbatim>\<open>undefined\<close> when it has none. The program reads only the names \<^verbatim>\<open>code\<close>,
  \<^verbatim>\<open>data\<close> and \<^verbatim>\<open>message\<close>, which no array, string, number or boolean has.
\<close>

fun get_prop :: "jsval \<Rightarrow> js_string \<Rightarrow> js_error + jsval" where
  "get_prop JUndefined k = Inl TypeError"
| "get_prop JNull k = Inl TypeError"
| "get_prop (JObj kvs) k = Inr (case map_of kvs k of None \<Rightarrow> JUndefined | Some v \<Rightarrow> v)"
| "get_prop v k = Inr JUndefined"

text \<open>
  How an awaited call ends. A call that never settles has no value of this type: the
  models take \<open>settlement option\<close>, with \<open>None\<close> for it.
\<close>

datatype settlement = Fulfilled jsval | Rejected js_error

section \<open>String methods\<close>

text \<open>
  \<^verbatim>\<open>s.includes(t)\<close> looks for \<open>t\<close> at every position of \<open>s\<close>, from the left.
\<close>

fun starts_with :: "'a list \<Rightarrow> 'a list \<Rightarrow> bool" where
  "starts_with s [] = True"
| "starts_with [] (y # ys) = False"
| "starts_with (x # xs) (y # ys) = (x = y \<and> starts_with xs ys)"

fun str_includes :: "'a list \<Rightarrow> 'a list \<Rightarrow> bool" where
  "str_includes [] t = starts_with [] t"
| "str_includes (x # xs) t = (starts_with (x # xs) t \<or> str_includes xs t)"

text \<open>
  \<^verbatim>\<open>s.trim()\<close> removes the white space and the line terminators of ECMAScript from
  both ends: TAB, LF, VT, FF, CR, SP, NBSP, the other space separators of Unicode,
  LS, PS and the byte order mark. All of them are single code units.
\<close>

definition is_white_space :: "code_unit \<Rightarrow> bool" where
  "is_white_space u =
     (u = 0x0009 \<or> u = 0x000A \<or> u = 0x000B \<or> u = 0x000C \<or> u = 0x000D \<or> u = 0x0020 \<or>
      u = 0x00A0 \<or> u = 0x1680 \<or> (0x2000 \<le> u \<and> u \<le> 0x200A) \<or> u = 0x2028 \<or>
      u = 0x2029 \<or> u = 0x202F \<or> u = 0x205F \<or> u = 0x3000 \<or> u = 0xFEFF)"

definition str_trim :: "js_string \<Rightarrow> js_string" where
  "str_trim s = rev (dropWhile is_white_space (rev (dropWhile is_white_space s)))"

section \<open>The relay service (server)\<close>

subsection \<open>Module scope\<close>

text \<open>
  The top-level bindings of the server module that a handler can see. The API key is
  a constant of the source; nothing below depends on its value. The declaration of
  \<^verbatim>\<open>detectInfiniteLoop\<close> is \<open>None\<close> in a program without it.
\<close>

record module_scope =
  apiKey :: js_string
  port :: nat
  detectInfiniteLoop_decl :: "(js_string \<Rightarrow> bool) option"

subsection \<open>The loop detector\<close>

text \<open>
  \<^verbatim>\<open>
  function detectInfiniteLoop(code) {
      return code.includes("while") && !code.includes("i++");
  }
  \<close>
\<close>

definition detectInfiniteLoop :: "js_string \<Rightarrow> bool" where
  "detectInfiniteLoop code =
     (str_includes code (js ''while'') \<and> \<not> str_includes code (js ''i++''))"

definition without_detector :: "module_scope \<Rightarrow> module_scope" where
  "without_detector scope = scope\<lparr>detectInfiniteLoop_decl := None\<rparr>"

subsection \<open>The world around the handler\<close>

text \<open>
  The Google client library is a parameter. \<^verbatim>\<open>google.genai(config)\<close> returns a client
  or throws. The client's \<^verbatim>\<open>projects.locations.models.predict(args)\<close>, awaited, gives a
  response, throws (a throw while the call is set up and a rejected promise end in the
  same \<^verbatim>\<open>catch\<close>), or never settles.
\<close>

type_synonym predict_fn = "jsval \<Rightarrow> settlement option"

record google_api =
  genai :: "jsval \<Rightarrow> js_error + predict_fn"

text \<open>What the handler does to the world, in order.\<close>

datatype effect =
    ConsoleLog js_string jsval
  | ConsoleError js_string js_error
  | GoogleGenai jsval
  | Predict jsval

text \<open>
  The response object of Express: the status code is 200 until \<^verbatim>\<open>res.status\<close> sets
  another, \<^verbatim>\<open>res.json\<close> sends the body.
\<close>

record http_response =
  statusCode :: nat
  sent :: "jsval option"

definition fresh_res :: http_response where
  "fresh_res = \<lparr>statusCode = 200, sent = None\<rparr>"

definition res_status :: "nat \<Rightarrow> http_response \<Rightarrow> http_response" where
  "res_status n r = r\<lparr>statusCode := n\<rparr>"

definition res_json :: "jsval \<Rightarrow> http_response \<Rightarrow> http_response" where
  "res_json v r = r\<lparr>sent := Some v\<rparr>"

record request =
  body :: jsval

text \<open>
  How a run of the handler ends: it returns, an error leaves it (thrown outside the
  \<^verbatim>\<open>try\<close>), or it waits for ever on a call that never settles.
\<close>

datatype ending = Completed | Escaped js_error | Hung

record relay_run =
  effects :: "effect list"
  res :: http_response
  ending :: ending

subsection \<open>The handler of POST /submit-code\<close>

definition genai_config :: "module_scope \<Rightarrow> jsval" where
  "genai_config scope =
     JObj [(js ''version'', JStr (js ''v1'')), (js ''auth'', JStr (apiKey scope))]"

definition model_name :: js_string where
  "model_name =
     (let projectId = js ''your-project-id'';
          location = js ''your-location'';
          modelName = js ''your-model-name''
      in js ''projects/'' @ projectId @ js ''/locations/'' @ location @
         js ''/models/'' @ modelName)"

definition predict_args :: "jsval \<Rightarrow> jsval" where
  "predict_args code =
     (let requestBody = JObj [(js ''input'', JObj [(js ''prompt'', code)])]
      in JObj [(js ''name'', JStr model_name), (js ''requestBody'', requestBody)])"

text \<open>The \<^verbatim>\<open>catch\<close> block.\<close>

definition catch_block :: "effect list \<Rightarrow> js_error \<Rightarrow> relay_run" where
  "catch_block so_far error =
     \<lparr>effects = so_far @ [ConsoleError (js ''Error processing code:'') error],
      res = res_json
              (JObj [(js ''error'', JStr (js ''Failed to process code using Google Gen AI API''))])
              (res_status 500 fresh_res),
      ending = Completed\<rparr>"

text \<open>The \<^verbatim>\<open>try\<close> statement, with \<open>code\<close> already taken from the body.\<close>

definition try_catch :: "module_scope \<Rightarrow> google_api \<Rightarrow> jsval \<Rightarrow> relay_run" where
  "try_catch scope google code =
     (let log = [ConsoleLog (js ''Received code:'') code];
          config = genai_config scope
      in case genai google config of
           Inl error \<Rightarrow> catch_block (log @ [GoogleGenai config]) error
         | Inr predict \<Rightarrow>
             (let args = predict_args code;
                  called = log @ [GoogleGenai config, Predict args]
              in case predict args of
                   None \<Rightarrow> \<lparr>effects = called, res = fresh_res, ending = Hung\<rparr>
                 | Some (Rejected error) \<Rightarrow> catch_block called error
                 | Some (Fulfilled response) \<Rightarrow>
                     (case get_prop response (js ''data'') of
                        Inl error \<Rightarrow> catch_block called error
                      | Inr data \<Rightarrow>
                          \<lparr>effects = called,
                           res = res_json
                                   (JObj [(js ''message'', JStr (js ''Code processed by Google Gen AI'')),
                                          (js ''data'', data)])
                                   fresh_res,
                           ending = Completed\<rparr>)))"

text \<open>
  \<^verbatim>\<open>const { code } = req.body;\<close> stands before the \<^verbatim>\<open>try\<close>: what it throws is not
  caught.
\<close>

definition submit_code_handler :: "module_scope \<Rightarrow> google_api \<Rightarrow> request \<Rightarrow> relay_run" where
  "submit_code_handler scope google req =
     (case get_prop (body req) (js ''code'') of
        Inl error \<Rightarrow> \<lparr>effects = [], res = fresh_res, ending = Escaped error\<rparr>
      | Inr code \<Rightarrow> try_catch scope google code)"

section \<open>The chat client (App.js)\<close>

subsection \<open>State\<close>

text \<open>
  A chat message is the object \<^verbatim>\<open>{ sender, text }\<close>. The text of a bot message is
  whatever the relay's reply holds under \<^verbatim>\<open>message\<close>, so it is a value, not always
  a string.
\<close>

record chat_message =
  sender :: js_string
  text' :: jsval

record http_request =
  url :: js_string
  payload :: jsval

text \<open>
  The two state variables of the component, \<open>code\<close> (the input field) and
  \<open>messages\<close>, with what the component does to the outside: the requests it has
  issued and the lines it has written to the console.
\<close>

record client =
  code :: js_string
  messages :: "chat_message list"
  requests :: "http_request list"
  console :: "(js_string \<times> js_error) list"

definition setCode :: "js_string \<Rightarrow> client \<Rightarrow> client" where
  "setCode v c = c\<lparr>code := v\<rparr>"

text \<open>
  \<^verbatim>\<open>setMessages(f)\<close> with an updater function: React applies \<open>f\<close> to the state of
  the moment.
\<close>

definition setMessages :: "(chat_message list \<Rightarrow> chat_message list) \<Rightarrow> client \<Rightarrow> client" where
  "setMessages f c = c\<lparr>messages := f (messages c)\<rparr>"

definition console_error :: "js_string \<Rightarrow> js_error \<Rightarrow> client \<Rightarrow> client" where
  "console_error label error c = c\<lparr>console := console c @ [(label, error)]\<rparr>"

definition axios_post :: "js_string \<Rightarrow> jsval \<Rightarrow> client \<Rightarrow> client" where
  "axios_post u d c = c\<lparr>requests := requests c @ [\<lparr>url = u, payload = d\<rparr>]\<rparr>"

subsection \<open>What axios makes of the network\<close>

text \<open>
  With its default \<^verbatim>\<open>validateStatus\<close>, axios fulfils the promise of \<^verbatim>\<open>axios.post\<close>
  for a status from 200 to 299, with a response object that holds the parsed body
  under \<^verbatim>\<open>data\<close>, and rejects it for every other status, for a network error and
  for a timeout.
\<close>

datatype http_outcome = HttpResponse nat jsval | NetworkError | Timeout

text \<open>
  The error object of a rejection is built by axios; \<open>err\<close> stands for how. Of the
  response object only \<^verbatim>\<open>data\<close> is read.
\<close>

fun axios_settles :: "(http_outcome \<Rightarrow> js_error) \<Rightarrow> http_outcome \<Rightarrow> settlement" where
  "axios_settles err (HttpResponse status d) =
     (if 200 \<le> status \<and> status < 300
      then Fulfilled (JObj [(js ''data'', d), (js ''status'', JNum (int status))])
      else Rejected (err (HttpResponse status d)))"
| "axios_settles err NetworkError = Rejected (err NetworkError)"
| "axios_settles err Timeout = Rejected (err Timeout)"

subsection \<open>handleCodeChange\<close>

definition handleCodeChange :: "js_string \<Rightarrow> client \<Rightarrow> client" where
  "handleCodeChange v c = setCode v c"

subsection \<open>handleRunTest\<close>

text \<open>
  \<^verbatim>\<open>handleRunTest\<close> is an \<^verbatim>\<open>async\<close> function with one \<^verbatim>\<open>await\<close>. It runs in two
  parts: from the click to the \<^verbatim>\<open>await\<close> (or to the early \<^verbatim>\<open>return\<close>), and, when
  the promise of \<^verbatim>\<open>axios.post\<close> has settled, from there to the end. Other events
  can happen in between, so the second part starts from the state of its moment.
\<close>

datatype async_run = Returned client | Awaiting client

definition user_message :: "js_string \<Rightarrow> chat_message list \<Rightarrow> chat_message list" where
  "user_message c prevMessages = prevMessages @ [\<lparr>sender = js ''user'', text' = JStr c\<rparr>]"

definition handleRunTest :: "client \<Rightarrow> async_run" where
  "handleRunTest c =
     (if str_trim (code c) = [] then Returned c
      else Awaiting
             (axios_post (js ''http://localhost:5000/submit-code'')
                (JObj [(js ''code'', JStr (code c))])
                (setMessages (user_message (code c)) c)))"

text \<open>
  The updater of the success branch reads \<^verbatim>\<open>response.data.message\<close> in its own body:
  \<^verbatim>\<open>
  setMessages((prevMessages) => [
    ...prevMessages,
    { sender: 'bot', text: response.data.message }
  ]);
  \<close>
  React runs an updater while it renders. A \<^verbatim>\<open>TypeError\<close> of that read is therefore
  raised in the render, where the \<^verbatim>\<open>catch\<close> of \<^verbatim>\<open>handleRunTest\<close> does not see it;
  React then unmounts the component, and its state is gone.
\<close>

definition bot_message :: "jsval \<Rightarrow> chat_message list \<Rightarrow> js_error + chat_message list" where
  "bot_message response prevMessages =
     (case get_prop response (js ''data'') of
        Inl error \<Rightarrow> Inl error
      | Inr d \<Rightarrow>
          (case get_prop d (js ''message'') of
             Inl error \<Rightarrow> Inl error
           | Inr m \<Rightarrow> Inr (prevMessages @ [\<lparr>sender = js ''bot'', text' = m\<rparr>])))"

definition error_message :: "chat_message list \<Rightarrow> chat_message list" where
  "error_message prevMessages =
     prevMessages @
     [\<lparr>sender = js ''bot'', text' = JStr (js ''An error occurred while processing your code.'')\<rparr>]"

text \<open>
  The component shows a message with \<^verbatim>\<open><p>{msg.text}</p>\<close>. React renders a string or
  a number as text, nothing for a boolean, \<^verbatim>\<open>null\<close> and \<^verbatim>\<open>undefined\<close>, and an array
  child by child; for an object it throws in the render (\<^verbatim>\<open>Objects are not valid as a
  React child\<close>), and the component is unmounted as for any error of a render.
\<close>

fun renderable :: "jsval \<Rightarrow> bool" where
  "renderable (JObj kvs) = False"
| "renderable (JArr vs) = list_all renderable vs"
| "renderable v = True"

definition invalid_child :: js_error where
  "invalid_child = Thrown (JStr (js ''Objects are not valid as a React child''))"

text \<open>
  The part after the \<^verbatim>\<open>await\<close>. \<open>Inl\<close> is the render that failed: the component is
  unmounted and there is no state any more. The messages of the state of the moment
  are on the page already; only the new one can make the render fail, and the text of
  the failure branch is a string.
\<close>

definition handleRunTest_resume :: "settlement \<Rightarrow> client \<Rightarrow> js_error + client" where
  "handleRunTest_resume settled c =
     (case settled of
        Fulfilled response \<Rightarrow>
          (case bot_message response (messages c) of
             Inl error \<Rightarrow> Inl error
           | Inr ms \<Rightarrow>
               if renderable (text' (last ms))
               then Inr (setCode [] (setMessages (\<lambda>_. ms) c))
               else Inl invalid_child)
      | Rejected error \<Rightarrow>
          Inr (setCode []
                (setMessages error_message
                  (console_error (js ''Error running code:'') error c))))"

text \<open>The events of the page, as steps between states of the mounted component.\<close>

inductive client_step :: "client \<Rightarrow> client \<Rightarrow> bool" where
  typed: "client_step c (handleCodeChange v c)"
| ignored: "handleRunTest c = Returned c' \<Longrightarrow> client_step c c'"
| submitted: "handleRunTest c = Awaiting c' \<Longrightarrow> client_step c c'"
| settled: "handleRunTest_resume s c = Inr c' \<Longrightarrow> client_step c c'"

section \<open>The relay service in the words of the specification\<close>

text \<open>
  Sections 4.2 and 6 of the specification describe the relay with no loop detection
  in it: it forwards the input text as the \<^verbatim>\<open>prompt\<close> of a prediction request
  \<^verbatim>\<open>{name, requestBody: {input: {prompt: code}}}\<close> addressed to a fixed resource path;
  it answers 200 with \<^verbatim>\<open>{message, data}\<close>, \<open>data\<close> being the body of the answer of the
  API, when the call succeeds, and 500 with a fixed \<^verbatim>\<open>{error}\<close> when anything is
  thrown. The definitions of this section follow those words, not the source; the
  resource path and the configuration of the client are parameters, as section 9 has
  them. They are what the handler of the source is compared with.
\<close>

datatype prediction = Predicted jsval | Failed js_error | Unsettled

definition spec_request :: "js_string \<Rightarrow> jsval \<Rightarrow> jsval" where
  "spec_request name input =
     JObj [(js ''name'', JStr name),
           (js ''requestBody'', JObj [(js ''input'', JObj [(js ''prompt'', input)])])]"

definition spec_prediction :: "google_api \<Rightarrow> jsval \<Rightarrow> jsval \<Rightarrow> prediction" where
  "spec_prediction google config request =
     (case genai google config of
        Inl error \<Rightarrow> Failed error
      | Inr predict \<Rightarrow>
          (case predict request of
             None \<Rightarrow> Unsettled
           | Some (Rejected error) \<Rightarrow> Failed error
           | Some (Fulfilled response) \<Rightarrow>
               (case get_prop response (js ''data'') of
                  Inl error \<Rightarrow> Failed error
                | Inr b \<Rightarrow> Predicted b)))"

fun spec_response :: "prediction \<Rightarrow> http_response" where
  "spec_response (Predicted b) =
     \<lparr>statusCode = 200,
      sent = Some (JObj [(js ''message'', JStr (js ''Code processed by Google Gen AI'')),
                         (js ''data'', b)])\<rparr>"
| "spec_response (Failed error) =
     \<lparr>statusCode = 500,
      sent = Some (JObj [(js ''error'',
                          JStr (js ''Failed to process code using Google Gen AI API''))])\<rparr>"
| "spec_response Unsettled = \<lparr>statusCode = 200, sent = None\<rparr>"

fun spec_ending :: "prediction \<Rightarrow> ending" where
  "spec_ending Unsettled = Hung"
| "spec_ending p = Completed"

definition spec_calls :: "google_api \<Rightarrow> jsval \<Rightarrow> jsval \<Rightarrow> effect list" where
  "spec_calls google config request =
     (case genai google config of
        Inl error \<Rightarrow> [GoogleGenai config]
      | Inr predict \<Rightarrow> [GoogleGenai config, Predict request])"

definition spec_relay ::
  "google_api \<Rightarrow> jsval \<Rightarrow> js_string \<Rightarrow> jsval \<Rightarrow> effect list \<times> http_response \<times> ending" where
  "spec_relay google config name input =
     (let p = spec_prediction google config (spec_request name input)
      in (spec_calls google config (spec_request name input), spec_response p, spec_ending p))"

text \<open>
  What is observed of a run of the handler: its calls downstream, the status and the
  body of its response, and how it ends.
\<close>

fun is_downstream :: "effect \<Rightarrow> bool" where
  "is_downstream (GoogleGenai config) = True"
| "is_downstream (Predict request) = True"
| "is_downstream e = False"

definition observed :: "relay_run \<Rightarrow> effect list \<times> http_response \<times> ending" where
  "observed run = (filter is_downstream (effects run), res run, ending run)"

section \<open>Test doubles\<close>

text \<open>
  A scope as the server module sets it up, a Google library whose prediction call
  settles as told, one that throws when the client is created, an error object for
  the rejections of axios, and the client as the page starts it, with a text typed.
\<close>

definition demo_scope :: module_scope where
  "demo_scope =
     \<lparr>apiKey = js ''demo-key'', port = 5000,
      detectInfiniteLoop_decl = Some detectInfiniteLoop\<rparr>"

definition stub_google :: "settlement option \<Rightarrow> google_api" where
  "stub_google outcome = \<lparr>genai = (\<lambda>config. Inr (\<lambda>args. outcome))\<rparr>"

definition broken_google :: "js_error \<Rightarrow> google_api" where
  "broken_google error = \<lparr>genai = (\<lambda>config. Inl error)\<rparr>"

definition axios_error :: "http_outcome \<Rightarrow> js_error" where
  "axios_error outcome = Thrown (JStr (js ''AxiosError''))"

definition fresh_client :: "js_string \<Rightarrow> client" where
  "fresh_client typed_text = \<lparr>code = typed_text, messages = [], requests = [], console = []\<rparr>"

section \<open>Properties of the string methods\<close>

lemma starts_with_iff: "starts_with s t \<longleftrightarrow> (\<exists>v. s = t @ v)"
  by (induction s t rule: starts_with.induct) auto

lemma str_includes_iff: "str_includes s t \<longleftrightarrow> (\<exists>u v. s = u @ t @ v)"
proof (induction s)
  case Nil
  show ?case by (simp add: starts_with_iff)
next
  case (Cons x xs)
  have "(\<exists>u v. x # xs = u @ t @ v) \<longleftrightarrow>
        (\<exists>v. x # xs = t @ v) \<or> (\<exists>u v. xs = u @ t @ v)"
  proof
    assume "\<exists>u v. x # xs = u @ t @ v"
    then obtain u v where uv: "x # xs = u @ t @ v" by blast
    show "(\<exists>v. x # xs = t @ v) \<or> (\<exists>u v. xs = u @ t @ v)"
    proof (cases u)
      case Nil
      with uv show ?thesis by auto
    next
      case (Cons a u')
      with uv have "xs = u' @ t @ v" by simp
      then show ?thesis by blast
    qed
  next
    assume "(\<exists>v. x # xs = t @ v) \<or> (\<exists>u v. xs = u @ t @ v)"
    then show "\<exists>u v. x # xs = u @ t @ v"
    proof
      assume "\<exists>v. x # xs = t @ v"
      then obtain v where "x # xs = [] @ t @ v" by auto
      then show ?thesis by blast
    next
      assume "\<exists>u v. xs = u @ t @ v"
      then obtain u v where "x # xs = (x # u) @ t @ v" by auto
      then show ?thesis by blast
    qed
  qed
  with Cons.IH show ?case by (simp add: starts_with_iff)
qed

lemma all_dropWhile: "(\<forall>x\<in>set (dropWhile P s). P x) \<longleftrightarrow> (\<forall>x\<in>set s. P x)"
  by (induction s) auto

lemma str_trim_empty_iff: "str_trim s = [] \<longleftrightarrow> (\<forall>u\<in>set s. is_white_space u)"
  by (simp add: str_trim_def dropWhile_eq_Nil_conv all_dropWhile)

section \<open>Properties of the relay service\<close>

lemma handler_present:
  "get_prop (body req) (js ''code'') = Inr X \<Longrightarrow>
   submit_code_handler scope google req = try_catch scope google X"
  by (simp add: submit_code_handler_def)

lemma handler_escapes:
  "get_prop (body req) (js ''code'') = Inl e \<Longrightarrow>
   submit_code_handler scope google req = \<lparr>effects = [], res = fresh_res, ending = Escaped e\<rparr>"
  by (simp add: submit_code_handler_def)

lemma try_catch_genai_throws:
  "genai google (genai_config scope) = Inl e \<Longrightarrow>
   try_catch scope google X =
     catch_block [ConsoleLog (js ''Received code:'') X, GoogleGenai (genai_config scope)] e"
  by (simp add: try_catch_def)

lemma try_catch_predict_rejects:
  "genai google (genai_config scope) = Inr predict \<Longrightarrow>
   predict (predict_args X) = Some (Rejected e) \<Longrightarrow>
   try_catch scope google X =
     catch_block [ConsoleLog (js ''Received code:'') X, GoogleGenai (genai_config scope),
                  Predict (predict_args X)] e"
  by (simp add: try_catch_def)

lemma try_catch_no_data:
  "genai google (genai_config scope) = Inr predict \<Longrightarrow>
   predict (predict_args X) = Some (Fulfilled response) \<Longrightarrow>
   get_prop response (js ''data'') = Inl e \<Longrightarrow>
   try_catch scope google X =
     catch_block [ConsoleLog (js ''Received code:'') X, GoogleGenai (genai_config scope),
                  Predict (predict_args X)] e"
  by (simp add: try_catch_def)

lemma try_catch_success:
  "genai google (genai_config scope) = Inr predict \<Longrightarrow>
   predict (predict_args X) = Some (Fulfilled response) \<Longrightarrow>
   get_prop response (js ''data'') = Inr B \<Longrightarrow>
   try_catch scope google X =
     \<lparr>effects = [ConsoleLog (js ''Received code:'') X, GoogleGenai (genai_config scope),
                 Predict (predict_args X)],
      res = \<lparr>statusCode = 200,
              sent = Some (JObj [(js ''message'', JStr (js ''Code processed by Google Gen AI'')),
                                 (js ''data'', B)])\<rparr>,
      ending = Completed\<rparr>"
  by (simp add: try_catch_def res_json_def fresh_res_def)

lemma try_catch_hangs:
  "genai google (genai_config scope) = Inr predict \<Longrightarrow>
   predict (predict_args X) = None \<Longrightarrow>
   try_catch scope google X =
     \<lparr>effects = [ConsoleLog (js ''Received code:'') X, GoogleGenai (genai_config scope),
                 Predict (predict_args X)],
      res = fresh_res, ending = Hung\<rparr>"
  by (simp add: try_catch_def)

lemma res_catch_block:
  "res (catch_block t e) =
     \<lparr>statusCode = 500,
      sent = Some (JObj [(js ''error'',
                          JStr (js ''Failed to process code using Google Gen AI API''))])\<rparr>"
  by (simp add: catch_block_def res_json_def res_status_def fresh_res_def)

lemma ending_catch_block: "ending (catch_block t e) = Completed"
  by (simp add: catch_block_def)

lemma try_catch_shapes:
  "sent (res (try_catch scope google X)) = None \<or>
   (\<exists>B. res (try_catch scope google X) =
      \<lparr>statusCode = 200,
       sent = Some (JObj [(js ''message'', JStr (js ''Code processed by Google Gen AI'')),
                          (js ''data'', B)])\<rparr>) \<or>
   res (try_catch scope google X) =
     \<lparr>statusCode = 500,
      sent = Some (JObj [(js ''error'',
                          JStr (js ''Failed to process code using Google Gen AI API''))])\<rparr>"
  by (simp add: try_catch_def res_catch_block res_json_def fresh_res_def Let_def
      split: sum.split option.split settlement.split)

lemma handler_shapes:
  "sent (res (submit_code_handler scope google req)) = None \<or>
   (\<exists>B. res (submit_code_handler scope google req) =
      \<lparr>statusCode = 200,
       sent = Some (JObj [(js ''message'', JStr (js ''Code processed by Google Gen AI'')),
                          (js ''data'', B)])\<rparr>) \<or>
   res (submit_code_handler scope google req) =
     \<lparr>statusCode = 500,
      sent = Some (JObj [(js ''error'',
                          JStr (js ''Failed to process code using Google Gen AI API''))])\<rparr>"
proof (cases "get_prop (body req) (js ''code'')")
  case (Inl e)
  then show ?thesis by (simp add: submit_code_handler_def fresh_res_def)
next
  case (Inr X)
  then show ?thesis using try_catch_shapes [of scope google X]
    by (simp add: submit_code_handler_def)
qed

lemma try_catch_scope:
  "try_catch (scope\<lparr>detectInfiniteLoop_decl := d\<rparr>) google X = try_catch scope google X"
  by (simp add: try_catch_def genai_config_def)

lemma demo_config: "genai (stub_google outcome) config = Inr (\<lambda>args. outcome)"
  by (simp add: stub_google_def)

text \<open>
  Claim C1. When the body of the request holds \<open>X\<close> under \<^verbatim>\<open>code\<close> and the
  prediction call returns a response whose body is \<open>B\<close>, the relay answers with
  status 200 and the JSON body \<^verbatim>\<open>{message: "Code processed by Google Gen AI", data: B}\<close>,
  with \<open>B\<close> as it came.
\<close>

theorem relay_success:
  assumes "get_prop (body req) (js ''code'') = Inr X"
    and "genai google (genai_config scope) = Inr predict"
    and "predict (predict_args X) = Some (Fulfilled response)"
    and "get_prop response (js ''data'') = Inr B"
  shows "res (submit_code_handler scope google req) =
           \<lparr>statusCode = 200,
            sent = Some (JObj [(js ''message'', JStr (js ''Code processed by Google Gen AI'')),
                               (js ''data'', B)])\<rparr> \<and>
         ending (submit_code_handler scope google req) = Completed"
  using assms by (simp add: handler_present try_catch_success)

theorem relay_success_witness:
  "res (submit_code_handler demo_scope
         (stub_google (Some (Fulfilled
            (JObj [(js ''data'', JObj [(js ''predictions'', JArr [JStr (js ''ok'')])])]))))
         \<lparr>body = JObj [(js ''code'', JStr (js ''for i in range(10): print(i)''))]\<rparr>) =
     \<lparr>statusCode = 200,
      sent = Some (JObj [(js ''message'', JStr (js ''Code processed by Google Gen AI'')),
                         (js ''data'', JObj [(js ''predictions'', JArr [JStr (js ''ok'')])])])\<rparr>"
proof -
  let ?B = "JObj [(js ''predictions'', JArr [JStr (js ''ok'')])]"
  let ?r = "Some (Fulfilled (JObj [(js ''data'', ?B)]))"
  let ?X = "JStr (js ''for i in range(10): print(i)'')"
  have 1: "get_prop (body \<lparr>body = JObj [(js ''code'', ?X)]\<rparr>) (js ''code'') = Inr ?X"
    by simp
  have 2: "genai (stub_google ?r) (genai_config demo_scope) = Inr (\<lambda>args. ?r)"
    by (rule demo_config)
  have 3: "(\<lambda>args. ?r) (predict_args ?X) = ?r"
    by simp
  have 4: "get_prop (JObj [(js ''data'', ?B)]) (js ''data'') = Inr ?B"
    by simp
  from relay_success [OF 1 2 3 4] show ?thesis by simp
qed

text \<open>
  Claim C2 says that the fixed answer follows whatever step of the handler throws.
  The first step, \<^verbatim>\<open>const { code } = req.body\<close>, stands before the \<^verbatim>\<open>try\<close>: for a
  request that arrives without a parsed body it throws a \<^verbatim>\<open>TypeError\<close> that no
  \<^verbatim>\<open>catch\<close> of the handler sees, and the handler sends nothing.
\<close>

theorem relay_failure_counterexample:
  "submit_code_handler demo_scope (stub_google None) \<lparr>body = JUndefined\<rparr> =
     \<lparr>effects = [], res = \<lparr>statusCode = 200, sent = None\<rparr>, ending = Escaped TypeError\<rparr> \<and>
   res (submit_code_handler demo_scope (stub_google None) \<lparr>body = JUndefined\<rparr>) \<noteq>
     \<lparr>statusCode = 500,
      sent = Some (JObj [(js ''error'',
                          JStr (js ''Failed to process code using Google Gen AI API''))])\<rparr>"
  by (simp add: submit_code_handler_def fresh_res_def)

lemma try_catch_outcomes:
  "(\<exists>B. res (try_catch scope google X) =
      \<lparr>statusCode = 200,
       sent = Some (JObj [(js ''message'', JStr (js ''Code processed by Google Gen AI'')),
                          (js ''data'', B)])\<rparr> \<and>
      ending (try_catch scope google X) = Completed) \<or>
   (res (try_catch scope google X) =
      \<lparr>statusCode = 500,
       sent = Some (JObj [(js ''error'',
                           JStr (js ''Failed to process code using Google Gen AI API''))])\<rparr> \<and>
    ending (try_catch scope google X) = Completed) \<or>
   (res (try_catch scope google X) = \<lparr>statusCode = 200, sent = None\<rparr> \<and>
    ending (try_catch scope google X) = Hung \<and>
    (\<exists>predict. genai google (genai_config scope) = Inr predict \<and>
       predict (predict_args X) = None))"
  by (simp add: try_catch_def res_catch_block ending_catch_block res_json_def fresh_res_def
      Let_def split: sum.split option.split settlement.split)

text \<open>
  Claim C2, amended. For a request from whose body \<^verbatim>\<open>code\<close> can be read, when a step
  of the \<^verbatim>\<open>try\<close> block throws an error \<open>e\<close> (the creation of the client, the
  prediction call, or the read of the response's body), the relay answers with status
  500 and the fixed JSON body
  \<^verbatim>\<open>{error: "Failed to process code using Google Gen AI API"}\<close>, whatever \<open>e\<close> is. The
  handler has no other answer for a failure: it ends with the answer of success, with
  this one, or, when the prediction call never settles, with none.
\<close>

theorem relay_failure:
  assumes "get_prop (body req) (js ''code'') = Inr X"
  shows
  "((genai google (genai_config scope) = Inl e \<or>
     (\<exists>predict. genai google (genai_config scope) = Inr predict \<and>
        (predict (predict_args X) = Some (Rejected e) \<or>
         (\<exists>response. predict (predict_args X) = Some (Fulfilled response) \<and>
            get_prop response (js ''data'') = Inl e))))
    \<longrightarrow> res (submit_code_handler scope google req) =
          \<lparr>statusCode = 500,
           sent = Some (JObj [(js ''error'',
                               JStr (js ''Failed to process code using Google Gen AI API''))])\<rparr> \<and>
        ending (submit_code_handler scope google req) = Completed) \<and>
   ((\<exists>B. res (submit_code_handler scope google req) =
       \<lparr>statusCode = 200,
        sent = Some (JObj [(js ''message'', JStr (js ''Code processed by Google Gen AI'')),
                           (js ''data'', B)])\<rparr> \<and>
       ending (submit_code_handler scope google req) = Completed) \<or>
    (res (submit_code_handler scope google req) =
       \<lparr>statusCode = 500,
        sent = Some (JObj [(js ''error'',
                            JStr (js ''Failed to process code using Google Gen AI API''))])\<rparr> \<and>
     ending (submit_code_handler scope google req) = Completed) \<or>
    (res (submit_code_handler scope google req) = \<lparr>statusCode = 200, sent = None\<rparr> \<and>
     ending (submit_code_handler scope google req) = Hung \<and>
     (\<exists>predict. genai google (genai_config scope) = Inr predict \<and>
        predict (predict_args X) = None)))"
proof -
  from assms have run: "submit_code_handler scope google req = try_catch scope google X"
    by (rule handler_present)
  have 1: "res (try_catch scope google X) =
          \<lparr>statusCode = 500,
           sent = Some (JObj [(js ''error'',
                               JStr (js ''Failed to process code using Google Gen AI API''))])\<rparr> \<and>
        ending (try_catch scope google X) = Completed"
    if h: "genai google (genai_config scope) = Inl e \<or>
     (\<exists>predict. genai google (genai_config scope) = Inr predict \<and>
        (predict (predict_args X) = Some (Rejected e) \<or>
         (\<exists>response. predict (predict_args X) = Some (Fulfilled response) \<and>
            get_prop response (js ''data'') = Inl e)))"
  proof -
    from h have "\<exists>t. try_catch scope google X = catch_block t e"
      using try_catch_genai_throws try_catch_predict_rejects try_catch_no_data by blast
    then obtain t where "try_catch scope google X = catch_block t e" ..
    then show ?thesis by (simp only: res_catch_block ending_catch_block)
  qed
  from 1 try_catch_outcomes [of scope google X] show ?thesis
    unfolding run by blast
qed

theorem relay_failure_witness:
  "res (submit_code_handler demo_scope (broken_google TypeError)
         \<lparr>body = JObj [(js ''code'', JStr (js ''x''))]\<rparr>) =
     \<lparr>statusCode = 500,
      sent = Some (JObj [(js ''error'',
                          JStr (js ''Failed to process code using Google Gen AI API''))])\<rparr> \<and>
   res (submit_code_handler demo_scope
         (stub_google (Some (Rejected (Thrown (JStr (js ''quota''))))))
         \<lparr>body = JObj [(js ''code'', JStr (js ''x''))]\<rparr>) =
     \<lparr>statusCode = 500,
      sent = Some (JObj [(js ''error'',
                          JStr (js ''Failed to process code using Google Gen AI API''))])\<rparr> \<and>
   res (submit_code_handler demo_scope (stub_google (Some (Fulfilled JNull)))
         \<lparr>body = JObj []\<rparr>) =
     \<lparr>statusCode = 500,
      sent = Some (JObj [(js ''error'',
                          JStr (js ''Failed to process code using Google Gen AI API''))])\<rparr>"
proof -
  let ?req = "\<lparr>body = JObj [(js ''code'', JStr (js ''x''))]\<rparr>"
  let ?r = "Some (Rejected (Thrown (JStr (js ''quota''))))"
  let ?n = "Some (Fulfilled JNull)"
  have 1: "get_prop (body ?req) (js ''code'') = Inr (JStr (js ''x''))"
    by simp
  have 2: "genai (broken_google TypeError) (genai_config demo_scope) = Inl TypeError"
    by (simp add: broken_google_def)
  have 3: "genai (stub_google ?r) (genai_config demo_scope) = Inr (\<lambda>args. ?r)"
    by (rule demo_config)
  have 4: "get_prop (body \<lparr>body = JObj []\<rparr>) (js ''code'') = Inr JUndefined"
    by simp
  have 5: "genai (stub_google ?n) (genai_config demo_scope) = Inr (\<lambda>args. ?n)"
    by (rule demo_config)
  have 6: "get_prop JNull (js ''data'') = Inl TypeError"
    by simp
  from relay_failure [OF 1, of "broken_google TypeError" demo_scope TypeError] 2
  have a: "res (submit_code_handler demo_scope (broken_google TypeError) ?req) =
     \<lparr>statusCode = 500,
      sent = Some (JObj [(js ''error'',
                          JStr (js ''Failed to process code using Google Gen AI API''))])\<rparr>"
    by blast
  from relay_failure [OF 1, of "stub_google ?r" demo_scope "Thrown (JStr (js ''quota''))"] 3
  have b: "res (submit_code_handler demo_scope (stub_google ?r) ?req) =
     \<lparr>statusCode = 500,
      sent = Some (JObj [(js ''error'',
                          JStr (js ''Failed to process code using Google Gen AI API''))])\<rparr>"
    by blast
  from relay_failure [OF 4, of "stub_google ?n" demo_scope TypeError] 5 6
  have c: "res (submit_code_handler demo_scope (stub_google ?n) \<lparr>body = JObj []\<rparr>) =
     \<lparr>statusCode = 500,
      sent = Some (JObj [(js ''error'',
                          JStr (js ''Failed to process code using Google Gen AI API''))])\<rparr>"
    by blast
  from a b c show ?thesis by simp
qed

lemma try_catch_run:
  "(genai google (genai_config scope) = Inl e \<longrightarrow>
      try_catch scope google v =
        \<lparr>effects = [ConsoleLog (js ''Received code:'') v, GoogleGenai (genai_config scope),
                    ConsoleError (js ''Error processing code:'') e],
         res = \<lparr>statusCode = 500,
                 sent = Some (JObj [(js ''error'',
                          JStr (js ''Failed to process code using Google Gen AI API''))])\<rparr>,
         ending = Completed\<rparr>) \<and>
   (genai google (genai_config scope) = Inr predict \<longrightarrow>
      (predict (predict_args v) = None \<longrightarrow>
         try_catch scope google v =
           \<lparr>effects = [ConsoleLog (js ''Received code:'') v, GoogleGenai (genai_config scope),
                       Predict (predict_args v)],
            res = \<lparr>statusCode = 200, sent = None\<rparr>, ending = Hung\<rparr>) \<and>
      (predict (predict_args v) = Some (Rejected e) \<longrightarrow>
         try_catch scope google v =
           \<lparr>effects = [ConsoleLog (js ''Received code:'') v, GoogleGenai (genai_config scope),
                       Predict (predict_args v),
                       ConsoleError (js ''Error processing code:'') e],
            res = \<lparr>statusCode = 500,
                    sent = Some (JObj [(js ''error'',
                             JStr (js ''Failed to process code using Google Gen AI API''))])\<rparr>,
            ending = Completed\<rparr>) \<and>
      (predict (predict_args v) = Some (Fulfilled response) \<and>
       get_prop response (js ''data'') = Inl e \<longrightarrow>
         try_catch scope google v =
           \<lparr>effects = [ConsoleLog (js ''Received code:'') v, GoogleGenai (genai_config scope),
                       Predict (predict_args v),
                       ConsoleError (js ''Error processing code:'') e],
            res = \<lparr>statusCode = 500,
                    sent = Some (JObj [(js ''error'',
                             JStr (js ''Failed to process code using Google Gen AI API''))])\<rparr>,
            ending = Completed\<rparr>) \<and>
      (predict (predict_args v) = Some (Fulfilled response) \<and>
       get_prop response (js ''data'') = Inr B \<longrightarrow>
         try_catch scope google v =
           \<lparr>effects = [ConsoleLog (js ''Received code:'') v, GoogleGenai (genai_config scope),
                       Predict (predict_args v)],
            res = \<lparr>statusCode = 200,
                    sent = Some (JObj [(js ''message'',
                                        JStr (js ''Code processed by Google Gen AI'')),
                                       (js ''data'', B)])\<rparr>,
            ending = Completed\<rparr>))"
  by (simp add: try_catch_def catch_block_def res_json_def res_status_def fresh_res_def)

lemma predict_args_prompt:
  "predict_args X =
     JObj [(js ''name'', JStr model_name),
           (js ''requestBody'', JObj [(js ''input'', JObj [(js ''prompt'', X)])])]"
  by (simp add: predict_args_def)

text \<open>
  Claim C7. A request whose JSON body has no \<^verbatim>\<open>code\<close> field is not validated and
  not turned away. The run of the handler for it is, case by case of what the Google
  library does, the run for a body with a string under \<^verbatim>\<open>code\<close>, with
  \<^verbatim>\<open>undefined\<close> in the place of the string: in the log line, and as the \<^verbatim>\<open>prompt\<close> of
  the prediction request. Its answer is the answer of success or the fixed 500 of the
  \<^verbatim>\<open>catch\<close>, as the prediction call decides, and no other.
\<close>

theorem missing_code_passed_on:
  assumes "map_of kvs (js ''code'') = None"
    and "(b = JObj kvs \<and> v = JUndefined) \<or> (b = JObj [(js ''code'', JStr s)] \<and> v = JStr s)"
  shows
  "(let config = JObj [(js ''version'', JStr (js ''v1'')), (js ''auth'', JStr (apiKey scope))];
        args = JObj [(js ''name'', JStr model_name),
                     (js ''requestBody'', JObj [(js ''input'', JObj [(js ''prompt'', v)])])];
        failure = \<lparr>statusCode = 500,
                    sent = Some (JObj [(js ''error'',
                             JStr (js ''Failed to process code using Google Gen AI API''))])\<rparr>;
        run = submit_code_handler scope google \<lparr>body = b\<rparr>
    in (genai google config = Inl e \<longrightarrow>
          run = \<lparr>effects = [ConsoleLog (js ''Received code:'') v, GoogleGenai config,
                            ConsoleError (js ''Error processing code:'') e],
                 res = failure, ending = Completed\<rparr>) \<and>
       (genai google config = Inr predict \<longrightarrow>
          (predict args = None \<longrightarrow>
             run = \<lparr>effects = [ConsoleLog (js ''Received code:'') v, GoogleGenai config,
                               Predict args],
                    res = \<lparr>statusCode = 200, sent = None\<rparr>, ending = Hung\<rparr>) \<and>
          (predict args = Some (Rejected e) \<longrightarrow>
             run = \<lparr>effects = [ConsoleLog (js ''Received code:'') v, GoogleGenai config,
                               Predict args, ConsoleError (js ''Error processing code:'') e],
                    res = failure, ending = Completed\<rparr>) \<and>
          (predict args = Some (Fulfilled response) \<and>
           get_prop response (js ''data'') = Inl e \<longrightarrow>
             run = \<lparr>effects = [ConsoleLog (js ''Received code:'') v, GoogleGenai config,
                               Predict args, ConsoleError (js ''Error processing code:'') e],
                    res = failure, ending = Completed\<rparr>) \<and>
          (predict args = Some (Fulfilled response) \<and>
           get_prop response (js ''data'') = Inr B \<longrightarrow>
             run = \<lparr>effects = [ConsoleLog (js ''Received code:'') v, GoogleGenai config,
                               Predict args],
                    res = \<lparr>statusCode = 200,
                            sent = Some (JObj [(js ''message'',
                                                JStr (js ''Code processed by Google Gen AI'')),
                                               (js ''data'', B)])\<rparr>,
                    ending = Completed\<rparr>)))"
proof -
  from assms have "get_prop (body \<lparr>body = b\<rparr>) (js ''code'') = Inr v"
    by auto
  then have run: "submit_code_handler scope google \<lparr>body = b\<rparr> = try_catch scope google v"
    by (rule handler_present)
  from try_catch_run [of google scope e v predict response B]
  show ?thesis
    unfolding Let_def run predict_args_prompt genai_config_def by blast
qed

theorem missing_code_passed_on_witness:
  "submit_code_handler demo_scope
     (stub_google (Some (Fulfilled (JObj [(js ''data'', JStr (js ''ok''))]))))
     \<lparr>body = JObj [(js ''question'', JStr (js ''x''))]\<rparr> =
     \<lparr>effects =
        [ConsoleLog (js ''Received code:'') JUndefined,
         GoogleGenai (JObj [(js ''version'', JStr (js ''v1'')),
                            (js ''auth'', JStr (js ''demo-key''))]),
         Predict (JObj [(js ''name'', JStr model_name),
                        (js ''requestBody'',
                         JObj [(js ''input'', JObj [(js ''prompt'', JUndefined)])])])],
      res = \<lparr>statusCode = 200,
              sent = Some (JObj [(js ''message'', JStr (js ''Code processed by Google Gen AI'')),
                                 (js ''data'', JStr (js ''ok''))])\<rparr>,
      ending = Completed\<rparr> \<and>
   submit_code_handler demo_scope
     (stub_google (Some (Fulfilled (JObj [(js ''data'', JStr (js ''ok''))]))))
     \<lparr>body = JObj [(js ''code'', JStr (js ''x''))]\<rparr> =
     \<lparr>effects =
        [ConsoleLog (js ''Received code:'') (JStr (js ''x'')),
         GoogleGenai (JObj [(js ''version'', JStr (js ''v1'')),
                            (js ''auth'', JStr (js ''demo-key''))]),
         Predict (JObj [(js ''name'', JStr model_name),
                        (js ''requestBody'',
                         JObj [(js ''input'', JObj [(js ''prompt'', JStr (js ''x''))])])])],
      res = \<lparr>statusCode = 200,
              sent = Some (JObj [(js ''message'', JStr (js ''Code processed by Google Gen AI'')),
                                 (js ''data'', JStr (js ''ok''))])\<rparr>,
      ending = Completed\<rparr>"
proof -
  let ?resp = "JObj [(js ''data'', JStr (js ''ok''))]"
  let ?r = "Some (Fulfilled ?resp)"
  let ?kvs = "[(js ''question'', JStr (js ''x''))]"
  have 1: "map_of ?kvs (js ''code'') = None"
    by (simp add: js_def)
  have 2: "(JObj ?kvs = JObj ?kvs \<and> JUndefined = JUndefined) \<or>
           (JObj ?kvs = JObj [(js ''code'', JStr (js ''x''))] \<and> JUndefined = JStr (js ''x''))"
    by simp
  have 3: "(JObj [(js ''code'', JStr (js ''x''))] = JObj ?kvs \<and> JStr (js ''x'') = JUndefined) \<or>
           (JObj [(js ''code'', JStr (js ''x''))] = JObj [(js ''code'', JStr (js ''x''))] \<and>
            JStr (js ''x'') = JStr (js ''x''))"
    by simp
  have 4: "get_prop ?resp (js ''data'') = Inr (JStr (js ''ok''))"
    by simp
  have 5: "genai (stub_google ?r) config = Inr (\<lambda>args. ?r)" for config
    by (rule demo_config)
  have 6: "apiKey demo_scope = js ''demo-key''"
    by (simp add: demo_scope_def)
  from missing_code_passed_on [OF 1 2, of demo_scope "stub_google ?r" _ "\<lambda>args. ?r" ?resp
      "JStr (js ''ok'')"] 4 5 6
  have a: "submit_code_handler demo_scope (stub_google ?r) \<lparr>body = JObj ?kvs\<rparr> =
     \<lparr>effects =
        [ConsoleLog (js ''Received code:'') JUndefined,
         GoogleGenai (JObj [(js ''version'', JStr (js ''v1'')),
                            (js ''auth'', JStr (js ''demo-key''))]),
         Predict (JObj [(js ''name'', JStr model_name),
                        (js ''requestBody'',
                         JObj [(js ''input'', JObj [(js ''prompt'', JUndefined)])])])],
      res = \<lparr>statusCode = 200,
              sent = Some (JObj [(js ''message'', JStr (js ''Code processed by Google Gen AI'')),
                                 (js ''data'', JStr (js ''ok''))])\<rparr>,
      ending = Completed\<rparr>"
    by (simp add: Let_def)
  from missing_code_passed_on [OF 1 3, of demo_scope "stub_google ?r" _ "\<lambda>args. ?r" ?resp
      "JStr (js ''ok'')"] 4 5 6
  have b: "submit_code_handler demo_scope (stub_google ?r)
       \<lparr>body = JObj [(js ''code'', JStr (js ''x''))]\<rparr> =
     \<lparr>effects =
        [ConsoleLog (js ''Received code:'') (JStr (js ''x'')),
         GoogleGenai (JObj [(js ''version'', JStr (js ''v1'')),
                            (js ''auth'', JStr (js ''demo-key''))]),
         Predict (JObj [(js ''name'', JStr model_name),
                        (js ''requestBody'',
                         JObj [(js ''input'', JObj [(js ''prompt'', JStr (js ''x''))])])])],
      res = \<lparr>statusCode = 200,
              sent = Some (JObj [(js ''message'', JStr (js ''Code processed by Google Gen AI'')),
                                 (js ''data'', JStr (js ''ok''))])\<rparr>,
      ending = Completed\<rparr>"
    by (simp add: Let_def)
  from a b show ?thesis by simp
qed

lemma observed_try_catch:
  "observed (try_catch scope google X) =
     spec_relay google (genai_config scope) model_name X"
  by (simp add: observed_def spec_relay_def spec_prediction_def spec_calls_def spec_request_def
      try_catch_def catch_block_def predict_args_def res_json_def res_status_def fresh_res_def
      Let_def split: sum.split option.split settlement.split)

text \<open>
  Claim C8. The handler does not invoke \<^verbatim>\<open>detectInfiniteLoop\<close>. For every request,
  what is observed of its run (the calls downstream, the status and the body of the
  response) is what the relay of the specification does, which has no loop detection
  and does not see the module's bindings; and the whole run is the same in a program
  without the function, and the same whatever is bound to its name.
\<close>

theorem handler_ignores_detector:
  "(get_prop (body req) (js ''code'') = Inr X \<longrightarrow>
      observed (submit_code_handler scope google req) =
        spec_relay google
          (JObj [(js ''version'', JStr (js ''v1'')), (js ''auth'', JStr (apiKey scope))])
          model_name X) \<and>
   (get_prop (body req) (js ''code'') = Inl e \<longrightarrow>
      observed (submit_code_handler scope google req) =
        ([], \<lparr>statusCode = 200, sent = None\<rparr>, Escaped e)) \<and>
   submit_code_handler (without_detector scope) google req =
     submit_code_handler scope google req \<and>
   submit_code_handler (scope\<lparr>detectInfiniteLoop_decl := d\<rparr>) google req =
     submit_code_handler scope google req"
proof (intro conjI impI)
  assume "get_prop (body req) (js ''code'') = Inr X"
  then have "submit_code_handler scope google req = try_catch scope google X"
    by (rule handler_present)
  then show "observed (submit_code_handler scope google req) =
        spec_relay google
          (JObj [(js ''version'', JStr (js ''v1'')), (js ''auth'', JStr (apiKey scope))])
          model_name X"
    by (simp add: observed_try_catch genai_config_def)
next
  assume "get_prop (body req) (js ''code'') = Inl e"
  then show "observed (submit_code_handler scope google req) =
        ([], \<lparr>statusCode = 200, sent = None\<rparr>, Escaped e)"
    by (simp add: handler_escapes observed_def fresh_res_def)
next
  show "submit_code_handler (without_detector scope) google req =
     submit_code_handler scope google req"
    by (simp add: submit_code_handler_def without_detector_def try_catch_scope
        split: sum.split)
next
  show "submit_code_handler (scope\<lparr>detectInfiniteLoop_decl := d\<rparr>) google req =
     submit_code_handler scope google req"
    by (simp add: submit_code_handler_def try_catch_scope split: sum.split)
qed

theorem handler_ignores_detector_witness:
  "observed (submit_code_handler demo_scope
      (stub_google (Some (Fulfilled (JObj [(js ''data'', JStr (js ''ok''))]))))
      \<lparr>body = JObj [(js ''code'', JStr (js ''while (true) {}''))]\<rparr>) =
   ([GoogleGenai (JObj [(js ''version'', JStr (js ''v1'')),
                        (js ''auth'', JStr (js ''demo-key''))]),
     Predict (JObj [(js ''name'', JStr model_name),
                    (js ''requestBody'',
                     JObj [(js ''input'',
                            JObj [(js ''prompt'', JStr (js ''while (true) {}''))])])])],
    \<lparr>statusCode = 200,
     sent = Some (JObj [(js ''message'', JStr (js ''Code processed by Google Gen AI'')),
                        (js ''data'', JStr (js ''ok''))])\<rparr>,
    Completed)"
proof -
  let ?r = "Some (Fulfilled (JObj [(js ''data'', JStr (js ''ok''))]))"
  let ?X = "JStr (js ''while (true) {}'')"
  have 1: "get_prop (body \<lparr>body = JObj [(js ''code'', ?X)]\<rparr>) (js ''code'') = Inr ?X"
    by simp
  have 2: "spec_relay (stub_google ?r)
             (JObj [(js ''version'', JStr (js ''v1'')), (js ''auth'', JStr (apiKey demo_scope))])
             model_name ?X =
   ([GoogleGenai (JObj [(js ''version'', JStr (js ''v1'')),
                        (js ''auth'', JStr (js ''demo-key''))]),
     Predict (JObj [(js ''name'', JStr model_name),
                    (js ''requestBody'',
                     JObj [(js ''input'', JObj [(js ''prompt'', ?X)])])])],
    \<lparr>statusCode = 200,
     sent = Some (JObj [(js ''message'', JStr (js ''Code processed by Google Gen AI'')),
                        (js ''data'', JStr (js ''ok''))])\<rparr>,
    Completed)"
    by (simp add: spec_relay_def spec_prediction_def spec_calls_def spec_request_def
        stub_google_def demo_scope_def)
  from handler_ignores_detector [of "\<lparr>body = JObj [(js ''code'', ?X)]\<rparr>" ?X demo_scope
      "stub_google ?r"] 1
  have "observed (submit_code_handler demo_scope (stub_google ?r)
          \<lparr>body = JObj [(js ''code'', ?X)]\<rparr>) =
        spec_relay (stub_google ?r)
          (JObj [(js ''version'', JStr (js ''v1'')), (js ''auth'', JStr (apiKey demo_scope))])
          model_name ?X"
    by blast
  with 2 show ?thesis by simp
qed

section \<open>Properties of the chat client\<close>

lemma handleRunTest_blank:
  "str_trim (code c) = [] \<Longrightarrow> handleRunTest c = Returned c"
  by (simp add: handleRunTest_def)

lemma handleRunTest_nonblank:
  "str_trim (code c) \<noteq> [] \<Longrightarrow>
   handleRunTest c =
     Awaiting (c\<lparr>messages := messages c @ [\<lparr>sender = js ''user'', text' = JStr (code c)\<rparr>],
                 requests := requests c @
                   [\<lparr>url = js ''http://localhost:5000/submit-code'',
                     payload = JObj [(js ''code'', JStr (code c))]\<rparr>]\<rparr>)"
  by (simp add: handleRunTest_def axios_post_def setMessages_def user_message_def)

lemma resume_rejected:
  "handleRunTest_resume (Rejected e) c =
     Inr (c\<lparr>console := console c @ [(js ''Error running code:'', e)],
            messages := messages c @
              [\<lparr>sender = js ''bot'',
                text' = JStr (js ''An error occurred while processing your code.'')\<rparr>],
            code := []\<rparr>)"
  by (simp add: handleRunTest_resume_def setCode_def setMessages_def console_error_def
      error_message_def)

lemma resume_fulfilled:
  "get_prop response (js ''data'') = Inr d \<Longrightarrow> get_prop d (js ''message'') = Inr m \<Longrightarrow>
   renderable m \<Longrightarrow>
   handleRunTest_resume (Fulfilled response) c =
     Inr (c\<lparr>messages := messages c @ [\<lparr>sender = js ''bot'', text' = m\<rparr>], code := []\<rparr>)"
  by (simp add: handleRunTest_resume_def setCode_def setMessages_def bot_message_def)

lemma resume_unrenderable:
  "get_prop response (js ''data'') = Inr d \<Longrightarrow> get_prop d (js ''message'') = Inr m \<Longrightarrow>
   \<not> renderable m \<Longrightarrow>
   handleRunTest_resume (Fulfilled response) c = Inl invalid_child"
  by (simp add: handleRunTest_resume_def bot_message_def)

lemma resume_unmounted:
  "get_prop response (js ''data'') = Inr d \<Longrightarrow> get_prop d (js ''message'') = Inl e \<Longrightarrow>
   handleRunTest_resume (Fulfilled response) c = Inl e"
  by (simp add: handleRunTest_resume_def bot_message_def)

lemma axios_response_data:
  "get_prop (JObj [(js ''data'', d), (js ''status'', n)]) (js ''data'') = Inr d"
  by simp

lemma resume_appends_one:
  "handleRunTest_resume s c = Inr c' \<Longrightarrow>
   \<exists>m. messages c' = messages c @ [m] \<and> sender m = js ''bot''"
  by (auto simp: handleRunTest_resume_def setCode_def setMessages_def console_error_def
      error_message_def bot_message_def split: settlement.splits sum.splits if_splits)

lemma resume_clears_input:
  "handleRunTest_resume s c = Inr c' \<Longrightarrow> code c' = [] \<and> requests c' = requests c"
  by (auto simp: handleRunTest_resume_def setCode_def setMessages_def console_error_def
      split: settlement.splits sum.splits if_splits)

lemma client_step_appends:
  "client_step c c' \<Longrightarrow> \<exists>new. messages c' = messages c @ new \<and> length new \<le> 1"
proof (induction rule: client_step.induct)
  case (typed c v)
  show ?case by (simp add: handleCodeChange_def setCode_def)
next
  case (ignored c c')
  then show ?case by (auto simp: handleRunTest_def split: if_splits)
next
  case (submitted c c')
  then show ?case
    by (auto simp: handleRunTest_def axios_post_def setMessages_def user_message_def
        split: if_splits)
next
  case (settled s c c')
  from resume_appends_one [OF settled] show ?case by auto
qed

lemma client_steps_prefix:
  "client_step\<^sup>*\<^sup>* c c' \<Longrightarrow> prefix (messages c) (messages c')"
proof (induction rule: rtranclp_induct)
  case base
  show ?case by simp
next
  case (step y z)
  from client_step_appends [OF step.hyps(2)] have "prefix (messages y) (messages z)"
    by (auto simp: prefix_def)
  with step.IH show ?case by (rule prefix_order.trans)
qed

text \<open>
  Claim C4. When the input is empty or holds nothing but white space, a submit does
  nothing: \<^verbatim>\<open>handleRunTest\<close> returns at once with the state it found, so no message
  is appended and no request is issued.
\<close>

theorem blank_submit_is_noop:
  "\<forall>u\<in>set (code c). is_white_space u \<Longrightarrow> handleRunTest c = Returned c"
  by (simp add: handleRunTest_blank str_trim_empty_iff)

theorem blank_submit_is_noop_witness:
  "handleRunTest (fresh_client [0x20, 0x09, 0x0A, 0xA0, 0x3000]) =
     Returned (fresh_client [0x20, 0x09, 0x0A, 0xA0, 0x3000]) \<and>
   handleRunTest (fresh_client []) = Returned (fresh_client [])"
proof -
  have 1: "\<forall>u\<in>set (code (fresh_client [0x20, 0x09, 0x0A, 0xA0, 0x3000])). is_white_space u"
    by (simp add: fresh_client_def is_white_space_def)
  have 2: "\<forall>u\<in>set (code (fresh_client [])). is_white_space u"
    by (simp add: fresh_client_def)
  from blank_submit_is_noop [OF 1] blank_submit_is_noop [OF 2] show ?thesis by simp
qed

text \<open>
  Claim C5. When the input \<open>s\<close> is not blank, a submit appends the one message
  \<^verbatim>\<open>{sender: "user", text: s}\<close> to the end of the sequence, and the message is there
  when the function stops at its \<^verbatim>\<open>await\<close>, before the request settles.
\<close>

theorem user_message_appended:
  assumes "\<exists>u\<in>set (code c). \<not> is_white_space u"
  shows "\<exists>c1. handleRunTest c = Awaiting c1 \<and>
           messages c1 = messages c @ [\<lparr>sender = js ''user'', text' = JStr (code c)\<rparr>]"
proof -
  from assms have "str_trim (code c) \<noteq> []"
    by (simp add: str_trim_empty_iff)
  from handleRunTest_nonblank [OF this] show ?thesis by simp
qed

theorem user_message_appended_witness:
  "\<exists>c1. handleRunTest (fresh_client (js '' x '')) = Awaiting c1 \<and>
      messages c1 = [\<lparr>sender = js ''user'', text' = JStr (js '' x '')\<rparr>]"
proof -
  have "\<exists>u\<in>set (code (fresh_client (js '' x ''))). \<not> is_white_space u"
    by (simp add: fresh_client_def js_def is_white_space_def)
  from user_message_appended [OF this] show ?thesis
    by (simp add: fresh_client_def)
qed

text \<open>
  The two parts together: whatever the relay of this repository sends, the client
  appends exactly one bot message for it.
\<close>

lemma relay_reply_one_bot_message:
  assumes "sent (res (submit_code_handler scope google req)) = Some b"
  shows "\<exists>c2. handleRunTest_resume
                (axios_settles err
                   (HttpResponse (statusCode (res (submit_code_handler scope google req))) b))
                cur = Inr c2 \<and>
              messages c2 = messages cur @
                [\<lparr>sender = js ''bot'',
                  text' = JStr (if statusCode (res (submit_code_handler scope google req)) = 200
                                then js ''Code processed by Google Gen AI''
                                else js ''An error occurred while processing your code.'')\<rparr>]"
proof -
  let ?run = "submit_code_handler scope google req"
  from handler_shapes [of scope google req] assms
  consider (ok) B where "res ?run =
      \<lparr>statusCode = 200,
       sent = Some (JObj [(js ''message'', JStr (js ''Code processed by Google Gen AI'')),
                          (js ''data'', B)])\<rparr>"
    | (failed) "res ?run =
      \<lparr>statusCode = 500,
       sent = Some (JObj [(js ''error'',
                           JStr (js ''Failed to process code using Google Gen AI API''))])\<rparr>"
    by auto
  then show ?thesis
  proof cases
    case ok
    with assms have b: "b = JObj [(js ''message'', JStr (js ''Code processed by Google Gen AI'')),
                          (js ''data'', B)]"
      by simp
    have "get_prop b (js ''message'') = Inr (JStr (js ''Code processed by Google Gen AI''))"
      by (simp add: b)
    from resume_fulfilled [OF axios_response_data this] show ?thesis
      by (simp add: ok)
  next
    case failed
    then show ?thesis by (simp add: resume_rejected)
  qed
qed

text \<open>
  Claim C3 says that a bot message follows every settlement. A reply of status 200
  whose body is \<^verbatim>\<open>null\<close> is a successful response, and no bot message follows it: the
  updater's read of \<^verbatim>\<open>response.data.message\<close> throws in the render, the \<^verbatim>\<open>catch\<close>
  does not run, and the component is unmounted.
\<close>

theorem bot_reply_counterexample:
  "handleRunTest (fresh_client (js ''x'')) =
     Awaiting \<lparr>code = js ''x'',
               messages = [\<lparr>sender = js ''user'', text' = JStr (js ''x'')\<rparr>],
               requests = [\<lparr>url = js ''http://localhost:5000/submit-code'',
                            payload = JObj [(js ''code'', JStr (js ''x''))]\<rparr>],
               console = []\<rparr> \<and>
   handleRunTest_resume (axios_settles axios_error (HttpResponse 200 JNull))
     \<lparr>code = js ''x'',
      messages = [\<lparr>sender = js ''user'', text' = JStr (js ''x'')\<rparr>],
      requests = [\<lparr>url = js ''http://localhost:5000/submit-code'',
                   payload = JObj [(js ''code'', JStr (js ''x''))]\<rparr>],
      console = []\<rparr> = Inl TypeError"
  by (simp add: handleRunTest_def fresh_client_def axios_post_def setMessages_def
      user_message_def str_trim_def is_white_space_def js_def handleRunTest_resume_def
      bot_message_def)

text \<open>
  Claim C3, amended. After a submit that is not blank there is a request to wait for.
  In every state the page reaches from there, the user message of the submit is in
  the sequence, and the settlement of the request appends exactly one bot message
  after it: with the \<^verbatim>\<open>message\<close> field of the body for a response of status 2xx whose
  body has such a field to read and React can show it (a string, as the relay sends,
  or any value but an object), and with
  \<^verbatim>\<open>"An error occurred while processing your code."\<close> for every other status, a
  network error, a timeout and any other rejection. In no case is more than one
  message appended.
\<close>

theorem bot_reply_exactly_one:
  assumes "\<exists>u\<in>set (code c). \<not> is_white_space u"
  shows "\<exists>c1. handleRunTest c = Awaiting c1 \<and>
    (client_step\<^sup>*\<^sup>* c1 cur \<longrightarrow>
       prefix (messages c @ [\<lparr>sender = js ''user'', text' = JStr (code c)\<rparr>]) (messages cur) \<and>
       (200 \<le> status \<and> status < 300 \<and> get_prop B (js ''message'') = Inr M \<and> renderable M \<longrightarrow>
          handleRunTest_resume (axios_settles err (HttpResponse status B)) cur =
            Inr (cur\<lparr>messages := messages cur @ [\<lparr>sender = js ''bot'', text' = M\<rparr>],
                     code := []\<rparr>)) \<and>
       (\<not> (200 \<le> status \<and> status < 300) \<longrightarrow>
          handleRunTest_resume (axios_settles err (HttpResponse status B)) cur =
            Inr (cur\<lparr>console := console cur @
                       [(js ''Error running code:'', err (HttpResponse status B))],
                     messages := messages cur @
                       [\<lparr>sender = js ''bot'',
                         text' = JStr (js ''An error occurred while processing your code.'')\<rparr>],
                     code := []\<rparr>)) \<and>
       handleRunTest_resume (axios_settles err NetworkError) cur =
         Inr (cur\<lparr>console := console cur @ [(js ''Error running code:'', err NetworkError)],
                  messages := messages cur @
                    [\<lparr>sender = js ''bot'',
                      text' = JStr (js ''An error occurred while processing your code.'')\<rparr>],
                  code := []\<rparr>) \<and>
       handleRunTest_resume (axios_settles err Timeout) cur =
         Inr (cur\<lparr>console := console cur @ [(js ''Error running code:'', err Timeout)],
                  messages := messages cur @
                    [\<lparr>sender = js ''bot'',
                      text' = JStr (js ''An error occurred while processing your code.'')\<rparr>],
                  code := []\<rparr>) \<and>
       handleRunTest_resume (Rejected e) cur =
         Inr (cur\<lparr>console := console cur @ [(js ''Error running code:'', e)],
                  messages := messages cur @
                    [\<lparr>sender = js ''bot'',
                      text' = JStr (js ''An error occurred while processing your code.'')\<rparr>],
                  code := []\<rparr>) \<and>
       (handleRunTest_resume s cur = Inr c3 \<longrightarrow>
          (\<exists>m. messages c3 = messages cur @ [m] \<and> sender m = js ''bot'')))"
proof -
  let ?c1 = "c\<lparr>messages := messages c @ [\<lparr>sender = js ''user'', text' = JStr (code c)\<rparr>],
               requests := requests c @
                 [\<lparr>url = js ''http://localhost:5000/submit-code'',
                   payload = JObj [(js ''code'', JStr (code c))]\<rparr>]\<rparr>"
  from assms have "str_trim (code c) \<noteq> []"
    by (simp add: str_trim_empty_iff)
  then have 1: "handleRunTest c = Awaiting ?c1"
    by (rule handleRunTest_nonblank)
  have 2: "prefix (messages c @ [\<lparr>sender = js ''user'', text' = JStr (code c)\<rparr>]) (messages cur)"
    if "client_step\<^sup>*\<^sup>* ?c1 cur"
    using client_steps_prefix [OF that] by simp
  have 3: "handleRunTest_resume (axios_settles err (HttpResponse status B)) cur =
         Inr (cur\<lparr>messages := messages cur @ [\<lparr>sender = js ''bot'', text' = M\<rparr>],
                  code := []\<rparr>)"
    if "200 \<le> status \<and> status < 300 \<and> get_prop B (js ''message'') = Inr M \<and> renderable M"
    using that by (simp add: resume_fulfilled [OF axios_response_data])
  have 4: "handleRunTest_resume (axios_settles err (HttpResponse status B)) cur =
            Inr (cur\<lparr>console := console cur @
                       [(js ''Error running code:'', err (HttpResponse status B))],
                     messages := messages cur @
                       [\<lparr>sender = js ''bot'',
                         text' = JStr (js ''An error occurred while processing your code.'')\<rparr>],
                     code := []\<rparr>)"
    if "\<not> (200 \<le> status \<and> status < 300)"
    by (simp add: that resume_rejected)
  have 5: "\<exists>m. messages c3 = messages cur @ [m] \<and> sender m = js ''bot''"
    if "handleRunTest_resume s cur = Inr c3"
    using that by (rule resume_appends_one)
  from 2 3 4 5 show ?thesis
    unfolding 1 by (simp add: resume_rejected)
qed

theorem bot_reply_exactly_one_witness:
  "handleRunTest_resume
     (axios_settles axios_error
        (HttpResponse 200
           (JObj [(js ''message'', JStr (js ''Code processed by Google Gen AI'')),
                  (js ''data'', JNull)])))
     \<lparr>code = js ''x'',
      messages = [\<lparr>sender = js ''user'', text' = JStr (js ''x'')\<rparr>],
      requests = [\<lparr>url = js ''http://localhost:5000/submit-code'',
                   payload = JObj [(js ''code'', JStr (js ''x''))]\<rparr>],
      console = []\<rparr> =
   Inr \<lparr>code = [],
        messages = [\<lparr>sender = js ''user'', text' = JStr (js ''x'')\<rparr>,
                    \<lparr>sender = js ''bot'',
                     text' = JStr (js ''Code processed by Google Gen AI'')\<rparr>],
        requests = [\<lparr>url = js ''http://localhost:5000/submit-code'',
                     payload = JObj [(js ''code'', JStr (js ''x''))]\<rparr>],
        console = []\<rparr> \<and>
   handleRunTest_resume
     (axios_settles axios_error
        (HttpResponse 500
           (JObj [(js ''error'',
                   JStr (js ''Failed to process code using Google Gen AI API''))])))
     \<lparr>code = js ''x'',
      messages = [\<lparr>sender = js ''user'', text' = JStr (js ''x'')\<rparr>],
      requests = [\<lparr>url = js ''http://localhost:5000/submit-code'',
                   payload = JObj [(js ''code'', JStr (js ''x''))]\<rparr>],
      console = []\<rparr> =
   Inr \<lparr>code = [],
        messages = [\<lparr>sender = js ''user'', text' = JStr (js ''x'')\<rparr>,
                    \<lparr>sender = js ''bot'',
                     text' = JStr (js ''An error occurred while processing your code.'')\<rparr>],
        requests = [\<lparr>url = js ''http://localhost:5000/submit-code'',
                     payload = JObj [(js ''code'', JStr (js ''x''))]\<rparr>],
        console = [(js ''Error running code:'', Thrown (JStr (js ''AxiosError'')))]\<rparr>"
proof -
  let ?B = "JObj [(js ''message'', JStr (js ''Code processed by Google Gen AI'')),
                  (js ''data'', JNull)]"
  let ?E = "JObj [(js ''error'',
                   JStr (js ''Failed to process code using Google Gen AI API''))]"
  let ?c1 = "\<lparr>code = js ''x'',
      messages = [\<lparr>sender = js ''user'', text' = JStr (js ''x'')\<rparr>],
      requests = [\<lparr>url = js ''http://localhost:5000/submit-code'',
                   payload = JObj [(js ''code'', JStr (js ''x''))]\<rparr>],
      console = []\<rparr>"
  have 1: "\<exists>u\<in>set (code (fresh_client (js ''x''))). \<not> is_white_space u"
    by (simp add: fresh_client_def js_def is_white_space_def)
  have 2: "handleRunTest (fresh_client (js ''x'')) = Awaiting ?c1"
    by (simp add: handleRunTest_def fresh_client_def axios_post_def setMessages_def
        user_message_def str_trim_def is_white_space_def js_def)
  have 3: "(200::nat) \<le> 200 \<and> (200::nat) < 300 \<and>
      get_prop ?B (js ''message'') = Inr (JStr (js ''Code processed by Google Gen AI'')) \<and>
      renderable (JStr (js ''Code processed by Google Gen AI''))"
    by simp
  have 4: "\<not> ((200::nat) \<le> 500 \<and> (500::nat) < 300)"
    by simp
  have 5: "client_step\<^sup>*\<^sup>* ?c1 ?c1"
    by simp
  from bot_reply_exactly_one [OF 1, of ?c1 200 ?B "JStr (js ''Code processed by Google Gen AI'')"
      axios_error] 2 3 5
  have a: "handleRunTest_resume (axios_settles axios_error (HttpResponse 200 ?B)) ?c1 =
      Inr (?c1\<lparr>messages := messages ?c1 @
             [\<lparr>sender = js ''bot'', text' = JStr (js ''Code processed by Google Gen AI'')\<rparr>],
           code := []\<rparr>)"
    by auto
  from bot_reply_exactly_one [OF 1, of ?c1 500 ?E _ axios_error] 2 4 5
  have b: "handleRunTest_resume (axios_settles axios_error (HttpResponse 500 ?E)) ?c1 =
      Inr (?c1\<lparr>console := console ?c1 @
                 [(js ''Error running code:'', axios_error (HttpResponse 500 ?E))],
               messages := messages ?c1 @
                 [\<lparr>sender = js ''bot'',
                   text' = JStr (js ''An error occurred while processing your code.'')\<rparr>],
               code := []\<rparr>)"
    by auto
  from a b show ?thesis by (simp add: axios_error_def)
qed

text \<open>
  Claim C6 says that the input field is cleared before the request is issued. At the
  \<^verbatim>\<open>await\<close>, with the request issued and not settled, the field still holds the
  text: \<^verbatim>\<open>setCode('')\<close> is the last statement of the function, after the
  \<^verbatim>\<open>try\<close> statement that waits.
\<close>

theorem input_cleared_before_request_counterexample:
  "handleRunTest (fresh_client (js ''x'')) =
     Awaiting \<lparr>code = js ''x'',
               messages = [\<lparr>sender = js ''user'', text' = JStr (js ''x'')\<rparr>],
               requests = [\<lparr>url = js ''http://localhost:5000/submit-code'',
                            payload = JObj [(js ''code'', JStr (js ''x''))]\<rparr>],
               console = []\<rparr> \<and>
   js ''x'' \<noteq> []"
  by (simp add: handleRunTest_def fresh_client_def axios_post_def setMessages_def
      user_message_def str_trim_def is_white_space_def js_def)

text \<open>
  Claim C6, amended. A submit that is not blank appends the user message and issues
  exactly one request, to \<^verbatim>\<open>http://localhost:5000/submit-code\<close> with the payload
  \<^verbatim>\<open>{code: text}\<close>, while the input field keeps its text; the part that runs when
  the request has settled clears the field and issues no further request.
\<close>

theorem input_cleared_on_settlement:
  assumes "\<exists>u\<in>set (code c). \<not> is_white_space u"
  shows "(\<exists>c1. handleRunTest c = Awaiting c1 \<and>
            messages c1 = messages c @ [\<lparr>sender = js ''user'', text' = JStr (code c)\<rparr>] \<and>
            requests c1 = requests c @
              [\<lparr>url = js ''http://localhost:5000/submit-code'',
                payload = JObj [(js ''code'', JStr (code c))]\<rparr>] \<and>
            code c1 = code c) \<and>
         (handleRunTest_resume s cur = Inr c2 \<longrightarrow> code c2 = [] \<and> requests c2 = requests cur)"
proof -
  from assms have "str_trim (code c) \<noteq> []"
    by (simp add: str_trim_empty_iff)
  from handleRunTest_nonblank [OF this] resume_clears_input [of s cur c2]
  show ?thesis by simp
qed

theorem input_cleared_on_settlement_witness:
  "(\<exists>c1. handleRunTest (fresh_client (js ''x'')) = Awaiting c1 \<and>
      messages c1 = [\<lparr>sender = js ''user'', text' = JStr (js ''x'')\<rparr>] \<and>
      requests c1 = [\<lparr>url = js ''http://localhost:5000/submit-code'',
                       payload = JObj [(js ''code'', JStr (js ''x''))]\<rparr>] \<and>
      code c1 = js ''x'') \<and>
   code \<lparr>code = [], messages = [\<lparr>sender = js ''bot'',
           text' = JStr (js ''An error occurred while processing your code.'')\<rparr>],
         requests = [], console = [(js ''Error running code:'', TypeError)]\<rparr> = []"
proof -
  have 1: "\<exists>u\<in>set (code (fresh_client (js ''x''))). \<not> is_white_space u"
    by (simp add: fresh_client_def js_def is_white_space_def)
  have 2: "handleRunTest_resume (Rejected TypeError) (fresh_client (js ''x'')) =
       Inr \<lparr>code = [], messages = [\<lparr>sender = js ''bot'',
           text' = JStr (js ''An error occurred while processing your code.'')\<rparr>],
         requests = [], console = [(js ''Error running code:'', TypeError)]\<rparr>"
    by (simp add: resume_rejected fresh_client_def)
  from input_cleared_on_settlement [OF 1, of "Rejected TypeError" "fresh_client (js ''x'')"] 2
  show ?thesis by (simp add: fresh_client_def)
qed

text \<open>
  Claim C9. The message sequence only grows at its end. Each of the three updaters
  (user message, bot message of a success, bot message of a failure) gives a sequence
  that has the sequence before as a prefix, and so does every step of the client and
  every chain of steps.
\<close>

theorem message_sequence_append_only:
  "prefix prev (user_message s prev) \<and>
   prefix prev (error_message prev) \<and>
   (bot_message response prev = Inr ms \<longrightarrow> prefix prev ms) \<and>
   (client_step c c' \<longrightarrow> prefix (messages c) (messages c')) \<and>
   (client_step\<^sup>*\<^sup>* c c'' \<longrightarrow> prefix (messages c) (messages c''))"
proof (intro conjI impI)
  show "prefix prev (user_message s prev)" by (simp add: user_message_def)
  show "prefix prev (error_message prev)" by (simp add: error_message_def)
  show "prefix prev ms" if "bot_message response prev = Inr ms"
    using that by (auto simp: bot_message_def split: sum.splits)
  show "prefix (messages c) (messages c')" if "client_step c c'"
    using client_step_appends [OF that] by (auto simp: prefix_def)
  show "prefix (messages c) (messages c'')" if "client_step\<^sup>*\<^sup>* c c''"
    using that by (rule client_steps_prefix)
qed

theorem message_sequence_append_only_witness:
  "prefix [\<lparr>sender = js ''user'', text' = JStr (js ''x'')\<rparr>]
     (user_message (js ''y'') [\<lparr>sender = js ''user'', text' = JStr (js ''x'')\<rparr>]) \<and>
   prefix [\<lparr>sender = js ''user'', text' = JStr (js ''x'')\<rparr>]
     (error_message [\<lparr>sender = js ''user'', text' = JStr (js ''x'')\<rparr>]) \<and>
   prefix [\<lparr>sender = js ''user'', text' = JStr (js ''x'')\<rparr>]
     [\<lparr>sender = js ''user'', text' = JStr (js ''x'')\<rparr>,
      \<lparr>sender = js ''bot'', text' = JStr (js ''hi'')\<rparr>] \<and>
   prefix
     (messages
        \<lparr>code = js ''x'',
         messages = [\<lparr>sender = js ''user'', text' = JStr (js ''x'')\<rparr>],
         requests = [], console = []\<rparr>)
     (messages
        \<lparr>code = [],
         messages = [\<lparr>sender = js ''user'', text' = JStr (js ''x'')\<rparr>,
                     \<lparr>sender = js ''bot'', text' = JStr (js ''hi'')\<rparr>],
         requests = [], console = []\<rparr>) \<and>
   prefix
     (messages
        \<lparr>code = js ''x'',
         messages = [\<lparr>sender = js ''user'', text' = JStr (js ''x'')\<rparr>],
         requests = [], console = []\<rparr>)
     (messages
        \<lparr>code = js ''y'',
         messages = [\<lparr>sender = js ''user'', text' = JStr (js ''x'')\<rparr>,
                     \<lparr>sender = js ''bot'', text' = JStr (js ''hi'')\<rparr>,
                     \<lparr>sender = js ''user'', text' = JStr (js ''y'')\<rparr>],
         requests = [\<lparr>url = js ''http://localhost:5000/submit-code'',
                      payload = JObj [(js ''code'', JStr (js ''y''))]\<rparr>],
         console = []\<rparr>)"
proof -
  let ?u = "\<lparr>sender = js ''user'', text' = JStr (js ''x'')\<rparr>"
  let ?b = "\<lparr>sender = js ''bot'', text' = JStr (js ''hi'')\<rparr>"
  let ?response = "JObj [(js ''data'', JObj [(js ''message'', JStr (js ''hi''))])]"
  let ?c1 = "\<lparr>code = js ''x'', messages = [?u], requests = [], console = []\<rparr>"
  let ?c2 = "\<lparr>code = [], messages = [?u, ?b], requests = [], console = []\<rparr>"
  let ?c3 = "\<lparr>code = js ''y'', messages = [?u, ?b], requests = [], console = []\<rparr>"
  let ?c4 = "\<lparr>code = js ''y'',
         messages = [?u, ?b, \<lparr>sender = js ''user'', text' = JStr (js ''y'')\<rparr>],
         requests = [\<lparr>url = js ''http://localhost:5000/submit-code'',
                      payload = JObj [(js ''code'', JStr (js ''y''))]\<rparr>],
         console = []\<rparr>"
  have bot: "bot_message ?response [?u] = Inr [?u, ?b]"
    by (simp add: bot_message_def)
  have "handleRunTest_resume (Fulfilled ?response) ?c1 = Inr ?c2"
    by (simp add: handleRunTest_resume_def bot_message_def setCode_def setMessages_def)
  then have s12: "client_step ?c1 ?c2"
    by (rule client_step.settled)
  have "client_step ?c2 (handleCodeChange (js ''y'') ?c2)"
    by (rule client_step.typed)
  then have s23: "client_step ?c2 ?c3"
    by (simp add: handleCodeChange_def setCode_def)
  have "handleRunTest ?c3 = Awaiting ?c4"
    by (simp add: handleRunTest_def axios_post_def setMessages_def user_message_def
        str_trim_def is_white_space_def js_def)
  then have s34: "client_step ?c3 ?c4"
    by (rule client_step.submitted)
  from s12 s23 s34 have chain: "client_step\<^sup>*\<^sup>* ?c1 ?c4"
    by (meson rtranclp.rtrancl_into_rtrancl rtranclp.rtrancl_refl)
  from message_sequence_append_only [of "[?u]" "js ''y''" ?response "[?u, ?b]" ?c1 ?c2 ?c4]
    bot s12 chain
  show ?thesis by simp
qed

section \<open>The loop detector is a substring test\<close>

lemma detectInfiniteLoop_examples:
  "detectInfiniteLoop (js ''while (true) {}'')"
  "\<not> detectInfiniteLoop (js ''while (i < 3) { i++; }'')"
  "\<not> detectInfiniteLoop (js ''for (;;) {}'')"
  "detectInfiniteLoop (js ''meanwhile'')"
  "\<not> detectInfiniteLoop []"
  by (simp_all add: detectInfiniteLoop_def js_def)

text \<open>
  Claim C10. \<open>detectInfiniteLoop\<close> is a total function of its string argument alone:
  it answers true exactly when the string contains \<^verbatim>\<open>while\<close> as a substring and
  does not contain \<^verbatim>\<open>i++\<close> as a substring.
\<close>

theorem detectInfiniteLoop_iff:
  "detectInfiniteLoop c \<longleftrightarrow>
     (\<exists>u v. c = u @ js ''while'' @ v) \<and> \<not> (\<exists>u v. c = u @ js ''i++'' @ v)"
  by (simp add: detectInfiniteLoop_def str_includes_iff)

end
